theory Spec2Isabelle
  imports Main
begin

section \<open>Validator: \<^verbatim>\<open>DataValidator\<close> (dataValidation.ts)\<close>

text \<open>
  JavaScript strings are modelled as \<^typ>\<open>string\<close>: a list of code units, one
  \<^typ>\<open>char\<close> each, so \<^verbatim>\<open>value.length\<close> is \<^const>\<open>length\<close>. A \<^typ>\<open>char\<close>
  ranges over the code units 0 to 255; texts with code units above that are outside the
  model.
\<close>

record 'a validationResult =
  isValid :: bool
  errors :: "string list"
  sanitizedValue :: "'a option"

subsection \<open>Character classes of the regular expressions\<close>

text \<open>
  The \<^verbatim>\<open>i\<close> flag (without \<^verbatim>\<open>u\<close>) compares code units through their upper-case
  forms. The literals of the three patterns are ASCII, and no code unit other than an
  ASCII letter has an ASCII letter as its upper-case form, so it is enough to map the
  letters a to z.
\<close>

definition upper :: "char \<Rightarrow> char" where
  "upper c = (let n = (of_char c :: nat) in if 97 \<le> n \<and> n \<le> 122 then char_of (n - 32) else c)"

text \<open>\<^verbatim>\<open>\w\<close> is \<^verbatim>\<open>[A-Za-z0-9_]\<close>.\<close>

definition is_word :: "char \<Rightarrow> bool" where
  "is_word c = (let n = (of_char c :: nat) in
     (65 \<le> n \<and> n \<le> 90) \<or> (97 \<le> n \<and> n \<le> 122) \<or> (48 \<le> n \<and> n \<le> 57) \<or> n = 95)"

text \<open>
  \<^verbatim>\<open>\s\<close>, and what \<^verbatim>\<open>trim()\<close> strips: tab, line feed, vertical tab, form feed,
  carriage return, space and the no-break space.
\<close>

definition is_space :: "char \<Rightarrow> bool" where
  "is_space c = (of_char c \<in> {9, 10, 11, 12, 13, 32, 160 :: nat})"

text \<open>The dot of a regular expression matches everything but a line terminator.\<close>

definition is_line_terminator :: "char \<Rightarrow> bool" where
  "is_line_terminator c = (of_char c \<in> {10, 13 :: nat})"

text \<open>A literal of the pattern matches at the head of the input, ignoring case.\<close>

definition ci_prefix :: "string \<Rightarrow> string \<Rightarrow> bool" where
  "ci_prefix p s = (length p \<le> length s \<and> map upper (take (length p) s) = map upper p)"

subsection \<open>The three patterns\<close>

text \<open>
  Each matcher answers, for the input at the current position, the length of the match
  that starts there, or \<^const>\<open>None\<close>.

  \<^verbatim>\<open>/<script[^>]*>.*?<\/script>/gi\<close>: the greedy class stops before the first
  \<^verbatim>\<open>>\<close>, which the pattern then requires; the lazy dot-star takes as few
  characters as possible, none of them a line terminator, up to the closing tag.
\<close>

fun lazy_close :: "string \<Rightarrow> nat option" where
  "lazy_close [] = None"
| "lazy_close (c # cs) =
     (if ci_prefix ''</script>'' (c # cs) then Some 9
      else if is_line_terminator c then None
      else map_option Suc (lazy_close cs))"

definition match_script :: "string \<Rightarrow> nat option" where
  "match_script s =
     (if ci_prefix ''<script'' s then
        (let r = drop 7 s; a = takeWhile (\<lambda>c. c \<noteq> CHR ''>'') r in
         case dropWhile (\<lambda>c. c \<noteq> CHR ''>'') r of
           [] \<Rightarrow> None
         | g # t \<Rightarrow> map_option (\<lambda>n. 7 + length a + 1 + n) (lazy_close t))
      else None)"

text \<open>\<^verbatim>\<open>/javascript:/gi\<close>\<close>

definition match_javascript :: "string \<Rightarrow> nat option" where
  "match_javascript s = (if ci_prefix ''javascript:'' s then Some 11 else None)"

text \<open>
  \<^verbatim>\<open>/on\w+\s*=/gi\<close>: both quantifiers are greedy, and giving back a character never
  helps, since the character after the word characters is no word character and the one
  after the white space is no white space.
\<close>

definition match_handler :: "string \<Rightarrow> nat option" where
  "match_handler s =
     (if ci_prefix ''on'' s then
        (let r = drop 2 s; w = takeWhile is_word r; r2 = dropWhile is_word r;
             sp = takeWhile is_space r2 in
         if w = [] then None
         else case dropWhile is_space r2 of
           [] \<Rightarrow> None
         | c # t \<Rightarrow> if c = CHR ''='' then Some (2 + length w + length sp + 1) else None)
      else None)"

text \<open>
  \<^verbatim>\<open>String.prototype.replace(re, '')\<close> with the \<^verbatim>\<open>g\<close> flag: scan from the left; where
  the pattern matches, drop the match and go on behind it; elsewhere keep the character.
  An empty match keeps the character, too.
\<close>

fun replace_all :: "(string \<Rightarrow> nat option) \<Rightarrow> string \<Rightarrow> string" where
  "replace_all m [] = []"
| "replace_all m (c # cs) =
     (case m (c # cs) of
        Some (Suc n) \<Rightarrow> replace_all m (drop n cs)
      | _ \<Rightarrow> c # replace_all m cs)"

text \<open>\<^verbatim>\<open>String.prototype.trim()\<close>\<close>

definition trim :: "string \<Rightarrow> string" where
  "trim s = rev (dropWhile is_space (rev (dropWhile is_space s)))"

text \<open>\<^verbatim>\<open>replace(/c/g, r)\<close> for a single character \<open>c\<close>.\<close>

definition replace_char :: "char \<Rightarrow> string \<Rightarrow> string \<Rightarrow> string" where
  "replace_char c r s = concat (map (\<lambda>x. if x = c then r else [x]) s)"

subsection \<open>\<^verbatim>\<open>validateText\<close>\<close>

text \<open>Decimal digits of a number, as a template literal prints it.\<close>

fun show_nat :: "nat \<Rightarrow> string" where
  "show_nat n =
     (if n < 10 then [char_of (48 + n)]
      else show_nat (n div 10) @ [char_of (48 + n mod 10)])"

declare show_nat.simps [simp del]

text \<open>
  The value of \<^verbatim>\<open>sanitized\<close> at the end of \<^verbatim>\<open>validateText\<close>: the three removals and
  the trim, then the four escapes, in the order of the source.
\<close>

definition sanitizeText :: "string \<Rightarrow> string" where
  "sanitizeText v =
     (let sanitized = trim (replace_all match_handler
                        (replace_all match_javascript (replace_all match_script v)))
      in replace_char (CHR 0x27) ''&#x27;''
           (replace_char (CHR 0x22) ''&quot;''
             (replace_char CHR ''>'' ''&gt;''
               (replace_char CHR ''<'' ''&lt;'' sanitized))))"

definition validateText :: "string \<Rightarrow> nat \<Rightarrow> string validationResult" where
  "validateText v maxLength =
     (if v = [] then
        \<lparr>isValid = False, errors = [''Value must be a non-empty string''],
         sanitizedValue = None\<rparr>
      else
        (let errs = (if length v > maxLength
                     then [''Text must be '' @ show_nat maxLength @ '' characters or less'']
                     else [])
         in \<lparr>isValid = (errs = []), errors = errs, sanitizedValue = Some (sanitizeText v)\<rparr>))"


text \<open>
  Whether a pattern matches somewhere in a text: the positions \<^const>\<open>replace_all\<close>
  would cut at, were it to start there.
\<close>

fun occurs :: "(string \<Rightarrow> nat option) \<Rightarrow> string \<Rightarrow> bool" where
  "occurs m [] = False"
| "occurs m (c # cs) = (case m (c # cs) of Some (Suc n) \<Rightarrow> True | _ \<Rightarrow> occurs m cs)"

subsection \<open>\<^verbatim>\<open>validateJson\<close>\<close>

text \<open>
  \<^verbatim>\<open>JSON.stringify\<close> belongs to the runtime and is a parameter: \<^const>\<open>None\<close> stands
  for a call that throws or yields \<^verbatim>\<open>undefined\<close>, whose \<^verbatim>\<open>.length\<close> throws in turn.
\<close>

definition validateJson :: "('j \<Rightarrow> string option) \<Rightarrow> 'j \<Rightarrow> nat \<Rightarrow> 'j validationResult" where
  "validateJson stringify d maxSize =
     (case stringify d of
        None \<Rightarrow> \<lparr>isValid = False, errors = [''Invalid JSON data''], sanitizedValue = None\<rparr>
      | Some jsonString \<Rightarrow>
          if length jsonString > maxSize then
            \<lparr>isValid = False,
             errors = [''JSON data too large. Maximum '' @ show_nat maxSize @ '' bytes allowed''],
             sanitizedValue = None\<rparr>
          else \<lparr>isValid = True, errors = [], sanitizedValue = Some d\<rparr>)"

section \<open>Backend element store: the SQL functions of the persistence migration\<close>

text \<open>
  Table \<^verbatim>\<open>portfolio_data_v2\<close>. A row carries the eight columns that
  \<^verbatim>\<open>get_portfolio_data\<close> returns and three more. \<^verbatim>\<open>element_value\<close> and
  \<^verbatim>\<open>json_data\<close> are nullable; the other columns have defaults and no statement of the
  repository stores NULL in them, so they are modelled without \<^typ>\<open>'a option\<close>
  (\<^verbatim>\<open>COALESCE(OLD.version, 0)\<close> is then \<^verbatim>\<open>OLD.version\<close>). Timestamps are
  milliseconds since the epoch. A JSON \<^verbatim>\<open>null\<close> in \<^verbatim>\<open>json_data\<close> and SQL NULL are
  not told apart: the client reads both as \<^verbatim>\<open>null\<close>.
\<close>

type_synonym uuid = string

datatype metadata =
    Save_metadata bool int string
  | Bulk_metadata int
  | Empty_metadata

text \<open>
  \<^const>\<open>Save_metadata\<close> is \<^verbatim>\<open>{auto_save, last_modified, user_agent}\<close>,
  \<^const>\<open>Bulk_metadata\<close> is \<^verbatim>\<open>{bulk_operation: true, timestamp}\<close>,
  \<^const>\<open>Empty_metadata\<close> is \<^verbatim>\<open>'{}'\<close>.
\<close>

record 'j portfolio_item =
  row_id :: uuid
  element_type :: string
  element_id :: string
  element_value :: "string option"
  json_data :: "'j option"
  metadata :: metadata
  version :: int
  updated_at :: int

record 'j portfolio_row = "'j portfolio_item" +
  user_id :: string
  is_active :: bool
  created_at :: int

text \<open>
  The state of the backend: the table, and the draws of \<^verbatim>\<open>gen_random_uuid()\<close> as a
  fixed sequence with a position. The backup and audit tables, which the triggers only
  append to and no function below reads, are not part of the state; the two AFTER
  triggers of the table (audit log, change notification) write nothing else.
\<close>

record 'j database =
  portfolio_data_v2 :: "'j portfolio_row list"
  gen_random_uuid :: "nat \<Rightarrow> uuid"
  drawn :: nat

text \<open>
  PostgreSQL's own functions are parameters: \<^verbatim>\<open>regexp_replace(source, pattern,
  replacement, flags)\<close> and \<^verbatim>\<open>pg_column_size\<close>.
\<close>

record 'j builtins =
  regexp_replace :: "string \<Rightarrow> string \<Rightarrow> string \<Rightarrow> string \<Rightarrow> string"
  pg_column_size :: "'j \<Rightarrow> nat"

text \<open>SQL \<^verbatim>\<open>trim(text)\<close> strips spaces, and only spaces, from both ends.\<close>

definition sql_trim :: "string \<Rightarrow> string" where
  "sql_trim s = rev (dropWhile (\<lambda>c. c = CHR '' '') (rev (dropWhile (\<lambda>c. c = CHR '' '') s)))"

text \<open>
  Trigger function \<^verbatim>\<open>validate_portfolio_data\<close> (BEFORE INSERT OR UPDATE): the row
  \<^verbatim>\<open>NEW\<close> as it leaves the trigger, or the message of the exception raised.
  \<open>uid\<close> is \<^verbatim>\<open>auth.uid()\<close>; \<^verbatim>\<open>user_id\<close> is never NULL here, and a comparison
  with a NULL \<^verbatim>\<open>auth.uid()\<close> does not raise.
\<close>

definition validate_portfolio_data ::
  "'j builtins \<Rightarrow> string option \<Rightarrow> 'j portfolio_row \<Rightarrow> string + 'j portfolio_row" where
  "validate_portfolio_data B uid NEW =
     (if element_type NEW \<notin> set [''text'', ''image'', ''project'', ''education'', ''profile'']
      then Inl (''Invalid element_type: '' @ element_type NEW)
      else
        (let NEW1 =
           (case element_value NEW of
              None \<Rightarrow> NEW
            | Some v \<Rightarrow>
                NEW\<lparr>element_value :=
                  Some (sql_trim
                    (regexp_replace B
                      (regexp_replace B v ''<script[^>]*>.*?</script>'' '''' ''gi'')
                      ''javascript:'' '''' ''gi''))\<rparr>)
         in
           if (case element_value NEW1 of Some v \<Rightarrow> length v > 10000 | None \<Rightarrow> False)
           then Inl ''Element value too long. Maximum 10000 characters allowed.''
           else if (case json_data NEW1 of Some j \<Rightarrow> pg_column_size B j > 1048576 | None \<Rightarrow> False)
           then Inl ''JSON data too large. Maximum 1MB allowed.''
           else if (case uid of Some u \<Rightarrow> user_id NEW1 \<noteq> u | None \<Rightarrow> False)
           then Inl ''Access denied. Users can only modify their own data.''
           else Inr NEW1))"

text \<open>
  Trigger function \<^verbatim>\<open>create_portfolio_backup\<close> (BEFORE UPDATE): it copies \<^verbatim>\<open>OLD\<close>
  to the backup table and then sets version and timestamp of \<^verbatim>\<open>NEW\<close>. The version is
  a 32-bit INTEGER, whose overflow raises.
\<close>

definition create_portfolio_backup ::
  "int \<Rightarrow> 'j portfolio_row \<Rightarrow> 'j portfolio_row \<Rightarrow> string + 'j portfolio_row" where
  "create_portfolio_backup now OLD NEW =
     (if version OLD + 1 > 2147483647 then Inl ''integer out of range''
      else Inr (NEW\<lparr>version := version OLD + 1, updated_at := now\<rparr>))"

text \<open>The unique constraint \<^verbatim>\<open>(user_id, element_type, element_id)\<close>.\<close>

definition conflicts :: "'j portfolio_row \<Rightarrow> 'j portfolio_row \<Rightarrow> bool" where
  "conflicts a b =
     (user_id a = user_id b \<and> element_type a = element_type b \<and> element_id a = element_id b)"

text \<open>
  The \<^verbatim>\<open>CHECK\<close> constraint of the table on \<^verbatim>\<open>element_type\<close>. It admits the types
  the validation trigger admits, so it is never the one to reject a row.
\<close>

definition element_type_check :: "'j database \<Rightarrow> bool" where
  "element_type_check db =
     list_all (\<lambda>row. element_type row \<in> set [''text'', ''image'', ''project'', ''education'', ''profile''])
       (portfolio_data_v2 db)"

text \<open>
  \<^verbatim>\<open>upsert_portfolio_data\<close>: \<^verbatim>\<open>INSERT ... ON CONFLICT ... DO UPDATE ... RETURNING id\<close>.
  The proposed row gets the column defaults and passes the BEFORE INSERT trigger. Without
  a conflicting row it is inserted. With one, the four assigned columns are taken from it
  (\<^verbatim>\<open>EXCLUDED\<close>), and the BEFORE UPDATE triggers run in the order of their names, the
  backup trigger before the validation trigger. An exception leaves the function with
  \<^const>\<open>Inl\<close>; the caller then keeps the state it had, as the transaction is rolled back.
\<close>

definition upsert_portfolio_data ::
  "'j builtins \<Rightarrow> string option \<Rightarrow> int \<Rightarrow> string \<Rightarrow> string \<Rightarrow> string option \<Rightarrow> 'j option
     \<Rightarrow> metadata \<Rightarrow> 'j database \<Rightarrow> string + (uuid \<times> 'j database)" where
  "upsert_portfolio_data B uid now p_element_type p_element_id p_element_value p_json_data
       p_metadata db =
     (case uid of
        None \<Rightarrow> Inl ''User must be authenticated''
      | Some current_user_id \<Rightarrow>
          (let proposed =
                 \<lparr>row_id = gen_random_uuid db (drawn db), element_type = p_element_type,
                  element_id = p_element_id, element_value = p_element_value,
                  json_data = p_json_data, metadata = p_metadata, version = 1,
                  updated_at = now, user_id = current_user_id, is_active = True,
                  created_at = now\<rparr>;
               db1 = db\<lparr>drawn := drawn db + 1\<rparr>
           in case validate_portfolio_data B uid proposed of
                Inl e \<Rightarrow> Inl e
              | Inr EXCLUDED \<Rightarrow>
                  (case find (conflicts EXCLUDED) (portfolio_data_v2 db1) of
                     None \<Rightarrow>
                       Inr (row_id EXCLUDED,
                            db1\<lparr>portfolio_data_v2 := portfolio_data_v2 db1 @ [EXCLUDED]\<rparr>)
                   | Some OLD \<Rightarrow>
                       (case create_portfolio_backup now OLD
                               (OLD\<lparr>element_value := element_value EXCLUDED,
                                    json_data := json_data EXCLUDED,
                                    metadata := metadata EXCLUDED,
                                    updated_at := now\<rparr>) of
                          Inl e \<Rightarrow> Inl e
                        | Inr NEW1 \<Rightarrow>
                            (case validate_portfolio_data B uid NEW1 of
                               Inl e \<Rightarrow> Inl e
                             | Inr NEW \<Rightarrow>
                                 Inr (row_id NEW,
                                      db1\<lparr>portfolio_data_v2 :=
                                        map (\<lambda>r. if conflicts EXCLUDED r then NEW else r)
                                          (portfolio_data_v2 db1)\<rparr>))))))"

text \<open>
  \<^verbatim>\<open>get_portfolio_data\<close>: the active rows of the caller that pass the two optional
  filters, latest first.
\<close>

definition get_portfolio_data ::
  "string option \<Rightarrow> string option \<Rightarrow> string option \<Rightarrow> 'j database
     \<Rightarrow> string + 'j portfolio_item list" where
  "get_portfolio_data uid p_element_type p_element_id db =
     (case uid of
        None \<Rightarrow> Inl ''User must be authenticated''
      | Some current_user_id \<Rightarrow>
          Inr (map portfolio_item.truncate
                (sort_key (\<lambda>pd. - updated_at pd)
                  (filter (\<lambda>pd. user_id pd = current_user_id \<and> is_active pd
                      \<and> (case p_element_type of None \<Rightarrow> True | Some t \<Rightarrow> element_type pd = t)
                      \<and> (case p_element_id of None \<Rightarrow> True | Some i \<Rightarrow> element_id pd = i))
                    (portfolio_data_v2 db)))))"

text \<open>
  \<^verbatim>\<open>bulk_update_portfolio_data\<close>: one element of the JSON array per turn of the loop.
  An exception inside a turn ends the whole function, and with it the rows written by the
  turns before.
\<close>

datatype 'j update_record =
  Update_record string string "string option" "'j option" metadata

fun bulk_loop ::
  "'j builtins \<Rightarrow> string option \<Rightarrow> int \<Rightarrow> 'j update_record list \<Rightarrow> nat \<Rightarrow> 'j database
     \<Rightarrow> string + (nat \<times> 'j database)" where
  "bulk_loop B uid now [] updated_count db = Inr (updated_count, db)"
| "bulk_loop B uid now (Update_record t i v j m # rest) updated_count db =
     (case upsert_portfolio_data B uid now t i v j m db of
        Inl e \<Rightarrow> Inl e
      | Inr (_, db') \<Rightarrow> bulk_loop B uid now rest (updated_count + 1) db')"

definition bulk_update_portfolio_data ::
  "'j builtins \<Rightarrow> string option \<Rightarrow> int \<Rightarrow> 'j update_record list \<Rightarrow> 'j database
     \<Rightarrow> string + (nat \<times> 'j database)" where
  "bulk_update_portfolio_data B uid now p_updates db =
     (case uid of
        None \<Rightarrow> Inl ''User must be authenticated''
      | Some current_user_id \<Rightarrow> bulk_loop B uid now p_updates 0 db)"

section \<open>Remote store client: \<^verbatim>\<open>EnhancedPortfolioDataService\<close>\<close>

text \<open>
  A value is a string or an object (\<^verbatim>\<open>value: string | object\<close>); an object is
  kept as the JSON value it is stored as. What \<^verbatim>\<open>getElement\<close> returns is a string, the
  content of a \<^verbatim>\<open>json_data\<close> column, or \<^verbatim>\<open>null\<close>, which is \<^const>\<open>None\<close>.
\<close>

datatype 'j payload = Str string | Obj 'j

text \<open>
  An awaited \<^verbatim>\<open>supabase.rpc(...)\<close> yields \<^verbatim>\<open>{data, error}\<close> with one of the two
  set, or rejects. Each remote function has the data type its SQL declaration returns.
  The three remote functions are parameters of the client: they take the arguments, the
  user of the session whose token the call carries, and the state of the backend.
\<close>

datatype 'a rpc_result = Success 'a | Failure string | Rejected string

record ('j, 'b) supabase =
  rpc_get_portfolio_data ::
    "string option \<Rightarrow> string option \<Rightarrow> string option \<Rightarrow> 'b
       \<Rightarrow> 'j portfolio_item list rpc_result \<times> 'b"
  rpc_upsert_portfolio_data ::
    "string \<Rightarrow> string \<Rightarrow> string option \<Rightarrow> 'j option \<Rightarrow> metadata \<Rightarrow> string option \<Rightarrow> 'b
       \<Rightarrow> uuid rpc_result \<times> 'b"
  rpc_bulk_update_portfolio_data ::
    "'j update_record list \<Rightarrow> string option \<Rightarrow> 'b \<Rightarrow> nat rpc_result \<times> 'b"

datatype toast = Toast_error string | Toast_success string

record 'j dataChangeEvent =
  elementType :: string
  elementId :: string
  oldValue :: "'j payload option"
  newValue :: "'j payload"
  timestamp :: int
  userId :: string

text \<open>
  What the client acts on: the session (its user id) that \<^verbatim>\<open>supabase.auth.getSession()\<close>
  reports, the backend behind the remote calls, the toasts shown, the change events handed
  to the listeners, the reading of \<^verbatim>\<open>new Date()\<close> and \<^verbatim>\<open>navigator.userAgent\<close>.
\<close>

record ('j, 'b) world =
  session :: "string option"
  backend :: 'b
  toasts :: "toast list"
  emitted :: "'j dataChangeEvent list"
  clock :: int
  userAgent :: string

text \<open>\<^verbatim>\<open>SaveOptions\<close>: every field is optional.\<close>

record saveOptions =
  opt_autoSave :: "bool option"
  opt_validateData :: "bool option"
  opt_createBackup :: "bool option"
  opt_showNotifications :: "bool option"

text \<open>A destructuring default: \<^verbatim>\<open>{ x = d } = options\<close>.\<close>

definition or_default :: "'a option \<Rightarrow> 'a \<Rightarrow> 'a" where
  "or_default x d = (case x of None \<Rightarrow> d | Some v \<Rightarrow> v)"

text \<open>\<^verbatim>\<open>Array.prototype.join\<close>\<close>

fun join :: "string \<Rightarrow> string list \<Rightarrow> string" where
  "join sep [] = []"
| "join sep [x] = x"
| "join sep (x # y # ys) = x @ sep @ join sep (y # ys)"

text \<open>
  The result of \<^verbatim>\<open>saveElement\<close>, \<^verbatim>\<open>{success, data?, errors?}\<close>, and of
  \<^verbatim>\<open>bulkSave\<close>, \<^verbatim>\<open>{success, savedCount, errors}\<close>. The fields of the second carry
  the prefix \<open>bulk\<close> where the names would clash.
\<close>

record saveResult =
  success :: bool
  data :: "uuid option"
  save_errors :: "string list option"

record bulkResult =
  bulk_success :: bool
  savedCount :: nat
  bulk_errors :: "string list"

subsection \<open>\<^verbatim>\<open>getElement\<close>\<close>

text \<open>
  The body of the \<^verbatim>\<open>try\<close> block: \<^const>\<open>Inl\<close> is a thrown error.
  \<^verbatim>\<open>item.json_data || item.element_value\<close> is the content of \<^verbatim>\<open>json_data\<close> when
  that is truthy, and \<^verbatim>\<open>element_value\<close> (a string or \<^verbatim>\<open>null\<close>) otherwise. Which
  JSON values are truthy is a matter of the runtime and a parameter: every object and
  array is, while \<^verbatim>\<open>false\<close>, \<^verbatim>\<open>0\<close> and the empty string are not.
\<close>

definition getElement_try ::
  "('j \<Rightarrow> bool) \<Rightarrow> 'j portfolio_item list rpc_result \<Rightarrow> string + 'j payload option" where
  "getElement_try truthy res =
     (case res of
        Rejected msg \<Rightarrow> Inl msg
      | Failure msg \<Rightarrow> Inl msg
      | Success [] \<Rightarrow> Inr None
      | Success (item # _) \<Rightarrow>
          Inr (case json_data item of
                 Some j \<Rightarrow> if truthy j then Some (Obj j)
                           else map_option Str (element_value item)
               | None \<Rightarrow> map_option Str (element_value item)))"

text \<open>
  The function with its \<^verbatim>\<open>catch\<close>, which logs and returns \<^verbatim>\<open>null\<close>. The result is
  a sum like that of every function that may throw.
\<close>

definition getElement ::
  "('j, 'b) supabase \<Rightarrow> ('j \<Rightarrow> bool) \<Rightarrow> string \<Rightarrow> string \<Rightarrow> ('j, 'b) world
     \<Rightarrow> (string + 'j payload option) \<times> ('j, 'b) world" where
  "getElement S truthy elementType' elementId' w =
     (let (res, b) = rpc_get_portfolio_data S (Some elementType') (Some elementId')
                       (session w) (backend w)
      in (case getElement_try truthy res of
            Inl error \<Rightarrow> Inr None
          | Inr v \<Rightarrow> Inr v,
          w\<lparr>backend := b\<rparr>))"

subsection \<open>\<^verbatim>\<open>saveElement\<close>\<close>

text \<open>The \<^verbatim>\<open>catch\<close> block of \<^verbatim>\<open>saveElement\<close>.\<close>

definition saveElement_catch ::
  "bool \<Rightarrow> string \<Rightarrow> ('j, 'b) world \<Rightarrow> saveResult \<times> ('j, 'b) world" where
  "saveElement_catch showNotifications message w =
     (\<lparr>success = False, data = None, save_errors = Some [message]\<rparr>,
      if showNotifications
      then w\<lparr>toasts := toasts w @ [Toast_error (''Failed to save: '' @ message)]\<rparr>
      else w)"

text \<open>
  The validation step: \<^verbatim>\<open>validateText(value)\<close> with its default length for a string,
  \<^verbatim>\<open>validateJson(value)\<close> with its default size for an object. The result is the
  error list, or the value to go on with, \<^verbatim>\<open>validation.sanitizedValue || value\<close>: an
  empty sanitized string is falsy and gives way to the value as it came.
\<close>

definition validate_value ::
  "('j \<Rightarrow> string option) \<Rightarrow> 'j payload \<Rightarrow> string list + 'j payload" where
  "validate_value stringify v =
     (case v of
        Str s \<Rightarrow>
          (let validation = validateText s 10000 in
           if \<not> isValid validation then Inl (errors validation)
           else (case sanitizedValue validation of
                   None \<Rightarrow> Inr v
                 | Some sanitized \<Rightarrow> if sanitized = [] then Inr v else Inr (Str sanitized)))
      | Obj j \<Rightarrow>
          (let validation = validateJson stringify j 1048576 in
           if \<not> isValid validation then Inl (errors validation)
           else (case sanitizedValue validation of
                   None \<Rightarrow> Inr v
                 | Some sanitized \<Rightarrow> Inr (Obj sanitized))))"

definition saveElement ::
  "('j, 'b) supabase \<Rightarrow> ('j \<Rightarrow> string option) \<Rightarrow> ('j \<Rightarrow> bool) \<Rightarrow> string \<Rightarrow> string
     \<Rightarrow> 'j payload \<Rightarrow> saveOptions \<Rightarrow> ('j, 'b) world \<Rightarrow> saveResult \<times> ('j, 'b) world" where
  "saveElement S stringify truthy elementType' elementId' value0 options w =
     (let autoSave' = or_default (opt_autoSave options) False;
          validateData = or_default (opt_validateData options) True;
          showNotifications = or_default (opt_showNotifications options) True
      in case session w of
           None \<Rightarrow> saveElement_catch showNotifications
                     ''User must be authenticated to save data'' w
         | Some user \<Rightarrow>
             (case (if validateData then validate_value stringify value0 else Inr value0) of
                Inl validation_errors \<Rightarrow>
                  (\<lparr>success = False, data = None, save_errors = Some validation_errors\<rparr>,
                   if showNotifications
                   then w\<lparr>toasts := toasts w @
                          [Toast_error (''Validation failed: '' @ join '', '' validation_errors)]\<rparr>
                   else w)
              | Inr value1 \<Rightarrow>
                  (let (currentData, w1) = getElement S truthy elementType' elementId' w;
                       elementValue = (case value1 of Str s \<Rightarrow> Some s | Obj j \<Rightarrow> None);
                       jsonData = (case value1 of Str s \<Rightarrow> None | Obj j \<Rightarrow> Some j);
                       (res, b) = rpc_upsert_portfolio_data S elementType' elementId'
                                    elementValue jsonData
                                    (Save_metadata autoSave' (clock w1) (userAgent w1))
                                    (session w1) (backend w1);
                       w2 = w1\<lparr>backend := b\<rparr>
                   in case res of
                        Rejected message \<Rightarrow> saveElement_catch showNotifications message w2
                      | Failure message \<Rightarrow> saveElement_catch showNotifications message w2
                      | Success d \<Rightarrow>
                          (\<lparr>success = True, data = Some d, save_errors = None\<rparr>,
                           w2\<lparr>emitted := emitted w2 @
                                 [\<lparr>elementType = elementType', elementId = elementId',
                                   oldValue = (case currentData of Inl e \<Rightarrow> None | Inr c \<Rightarrow> c),
                                   newValue = value1, timestamp = clock w2, userId = user\<rparr>],
                               toasts := toasts w2 @
                                 (if showNotifications \<and> \<not> autoSave'
                                  then [Toast_success ''Changes saved successfully!'']
                                  else [])\<rparr>))))"

subsection \<open>\<^verbatim>\<open>bulkSave\<close>\<close>

text \<open>An update is \<^verbatim>\<open>{elementType, elementId, value}\<close>, here a triple.\<close>

definition bulkSave_catch ::
  "string \<Rightarrow> ('j, 'b) world \<Rightarrow> bulkResult \<times> ('j, 'b) world" where
  "bulkSave_catch message w =
     (\<lparr>bulk_success = False, savedCount = 0, bulk_errors = [message]\<rparr>,
      w\<lparr>toasts := toasts w @ [Toast_error (''Bulk save failed: '' @ message)]\<rparr>)"

definition bulkSave ::
  "('j, 'b) supabase \<Rightarrow> (string \<times> string \<times> 'j payload) list \<Rightarrow> ('j, 'b) world
     \<Rightarrow> bulkResult \<times> ('j, 'b) world" where
  "bulkSave S updates w =
     (case session w of
        None \<Rightarrow> bulkSave_catch ''User must be authenticated'' w
      | Some user \<Rightarrow>
          (let bulkData =
                 map (\<lambda>(t, i, v).
                        Update_record t i
                          (case v of Str s \<Rightarrow> Some s | Obj j \<Rightarrow> None)
                          (case v of Str s \<Rightarrow> None | Obj j \<Rightarrow> Some j)
                          (Bulk_metadata (clock w)))
                     updates;
               (res, b) = rpc_bulk_update_portfolio_data S bulkData (session w) (backend w);
               w1 = w\<lparr>backend := b\<rparr>
           in case res of
                Rejected message \<Rightarrow> bulkSave_catch message w1
              | Failure message \<Rightarrow> bulkSave_catch message w1
              | Success d \<Rightarrow>
                  (\<lparr>bulk_success = True, savedCount = d, bulk_errors = []\<rparr>,
                   w1\<lparr>toasts := toasts w1 @
                     [Toast_success (''Successfully saved '' @ show_nat d @ '' items!'')]\<rparr>)))"

subsection \<open>The client on the SQL functions\<close>

text \<open>
  The remote functions as the migration defines them, at transaction time \<open>now\<close>. A
  raised exception comes back as the \<^verbatim>\<open>error\<close> of the response and leaves the
  database as it was.
\<close>

definition postgres :: "'j builtins \<Rightarrow> int \<Rightarrow> ('j, 'j database) supabase" where
  "postgres B now =
     \<lparr>rpc_get_portfolio_data = (\<lambda>t i uid db.
        case get_portfolio_data uid t i db of
          Inl e \<Rightarrow> (Failure e, db)
        | Inr rows \<Rightarrow> (Success rows, db)),
      rpc_upsert_portfolio_data = (\<lambda>t i v j m uid db.
        case upsert_portfolio_data B uid now t i v j m db of
          Inl e \<Rightarrow> (Failure e, db)
        | Inr (new_id, db') \<Rightarrow> (Success new_id, db')),
      rpc_bulk_update_portfolio_data = (\<lambda>us uid db.
        case bulk_update_portfolio_data B uid now us db of
          Inl e \<Rightarrow> (Failure e, db)
        | Inr (n, db') \<Rightarrow> (Success n, db'))\<rparr>"

section \<open>Share links\<close>

subsection \<open>The share object\<close>

text \<open>
  The object kept under element type \<^verbatim>\<open>share\<close>. The two dates are ISO strings in the
  source; here they are the instants they denote, in milliseconds since the epoch, so
  \<^verbatim>\<open>new Date(shareData.expiresAt)\<close> is \<open>expiresAt\<close>. \<^verbatim>\<open>accessCount\<close> is absent from
  the objects that \<^verbatim>\<open>createShareLink\<close> builds; the share-link manager
  (ShareLinkManager.tsx) stores its objects with \<^verbatim>\<open>accessCount: 0\<close> and shows the
  field as the number of views.
\<close>

record shareData =
  formId :: string
  shareId :: string
  createdBy :: string
  createdAt :: int
  expiresAt :: int
  sharePermissions :: "string list"
  password :: "string option"
  isActive :: bool
  accessCount :: "int option"

subsection \<open>\<^verbatim>\<open>RealTimeFormService.createShareLink\<close>\<close>





subsection \<open>\<^verbatim>\<open>RealTimeFormService.validateShareLink\<close>\<close>

text \<open>
  The checks on what \<^verbatim>\<open>getElement\<close> returned, at time \<open>now\<close> (\<^verbatim>\<open>new Date()\<close>). An
  empty string is falsy like \<^verbatim>\<open>null\<close>; any other string has no property
  \<^verbatim>\<open>isActive\<close>, and \<^verbatim>\<open>undefined\<close> is falsy, too.
\<close>

definition checkShareData :: "int \<Rightarrow> shareData payload option \<Rightarrow> string + shareData payload" where
  "checkShareData now sd =
     (case sd of
        None \<Rightarrow> Inl ''Share link not found''
      | Some (Str s) \<Rightarrow>
          if s = [] then Inl ''Share link not found'' else Inl ''Share link is inactive''
      | Some (Obj share) \<Rightarrow>
          if \<not> isActive share then Inl ''Share link is inactive''
          else if expiresAt share < now then Inl ''Share link has expired''
          else Inr (Obj share))"

text \<open>The \<^verbatim>\<open>catch\<close> block logs the error and throws it again.\<close>

definition validateShareLink ::
  "(shareData, 'b) supabase \<Rightarrow> (shareData \<Rightarrow> bool) \<Rightarrow> string \<Rightarrow> (shareData, 'b) world
     \<Rightarrow> (string + shareData payload) \<times> (shareData, 'b) world" where
  "validateShareLink S truthy shareId' w =
     (let (got, w1) = getElement S truthy ''share'' shareId' w
      in (case got of
            Inl error \<Rightarrow> Inl error
          | Inr sd \<Rightarrow> checkShareData (clock w1) sd,
          w1))"

subsection \<open>SQL function \<^verbatim>\<open>validate_share_link\<close> on table \<^verbatim>\<open>form_shares\<close>\<close>

text \<open>
  The nullable columns are options. Three column names carry the prefix \<open>fs\<close> to keep
  them apart from those of \<^verbatim>\<open>portfolio_data_v2\<close>.
\<close>

record form_share =
  fs_id :: uuid
  share_id :: string
  form_id :: string
  created_by :: string
  permissions :: "string list option"
  password_hash :: "string option"
  expires_at :: "int option"
  fs_is_active :: "bool option"
  access_count :: "int option"
  last_accessed_at :: "int option"
  fs_created_at :: "int option"
  fs_updated_at :: "int option"

text \<open>The row the function returns.\<close>

record share_validation =
  is_valid :: bool
  valid_form_id :: "string option"
  valid_permissions :: "string list option"
  requires_password :: bool

text \<open>
  \<^verbatim>\<open>SELECT * INTO share_record ... WHERE share_id = p_share_id AND is_active = true AND
  (expires_at IS NULL OR expires_at > NOW())\<close> takes the first row that qualifies. The
  \<^verbatim>\<open>UPDATE\<close> then touches every row with that \<^verbatim>\<open>share_id\<close>; \<^verbatim>\<open>access_count\<close> is a
  32-bit INTEGER whose overflow raises, and NULL plus one is NULL.
\<close>

definition share_qualifies :: "int \<Rightarrow> string \<Rightarrow> form_share \<Rightarrow> bool" where
  "share_qualifies now p_share_id r =
     (share_id r = p_share_id \<and> fs_is_active r = Some True
      \<and> (case expires_at r of None \<Rightarrow> True | Some e \<Rightarrow> e > now))"

definition record_access :: "int \<Rightarrow> form_share \<Rightarrow> form_share" where
  "record_access now r =
     r\<lparr>access_count := map_option (\<lambda>n. n + 1) (access_count r), last_accessed_at := Some now\<rparr>"

definition validate_share_link ::
  "int \<Rightarrow> string \<Rightarrow> form_share list \<Rightarrow> string + (share_validation \<times> form_share list)" where
  "validate_share_link now p_share_id form_shares =
     (case find (share_qualifies now p_share_id) form_shares of
        None \<Rightarrow>
          Inr (\<lparr>is_valid = False, valid_form_id = None, valid_permissions = None,
                requires_password = False\<rparr>, form_shares)
      | Some share_record \<Rightarrow>
          if list_ex (\<lambda>r. share_id r = p_share_id
                \<and> (case access_count r of None \<Rightarrow> False | Some n \<Rightarrow> n + 1 > 2147483647))
               form_shares
          then Inl ''integer out of range''
          else
            Inr (\<lparr>is_valid = True, valid_form_id = Some (form_id share_record),
                  valid_permissions = permissions share_record,
                  requires_password = (password_hash share_record \<noteq> None)\<rparr>,
                 map (\<lambda>r. if share_id r = p_share_id then record_access now r else r)
                   form_shares))"

section \<open>Autosave coordinator: \<^verbatim>\<open>EnhancedPortfolioDataService.autoSave\<close>\<close>

text \<open>
  The two static maps of the class, and the part of the host they depend on: the timer
  table of \<^verbatim>\<open>setTimeout\<close>, the time in milliseconds, and the callbacks that wait at
  \<^verbatim>\<open>await this.saveElement(...)\<close>. A timer is its handle, the time it is due, and the
  \<^verbatim>\<open>elementType\<close> and \<^verbatim>\<open>elementId\<close> its callback closes over. \<open>saveCalls\<close> lists the
  calls of \<^verbatim>\<open>saveElement\<close> the callbacks have made, in order.
\<close>

type_synonym timer = "nat \<times> nat \<times> string \<times> string"

record 'v autosaver =
  autoSaveTimeouts :: "string \<rightharpoonup> nat"
  pendingChanges :: "string \<rightharpoonup> 'v"
  timers :: "timer list"
  nextHandle :: nat
  time :: nat
  saveCalls :: "(string \<times> string \<times> 'v \<times> saveOptions) list"
  awaiting :: "string list"

definition idle :: "'v autosaver" where
  "idle = \<lparr>autoSaveTimeouts = Map.empty, pendingChanges = Map.empty, timers = [],
           nextHandle = 1, time = 0, saveCalls = [], awaiting = []\<rparr>"

text \<open>The key \<^verbatim>\<open>`${elementType}_${elementId}`\<close>.\<close>

definition key_of :: "string \<Rightarrow> string \<Rightarrow> string" where
  "key_of elementType' elementId' = elementType' @ ''_'' @ elementId'"

text \<open>\<^verbatim>\<open>clearTimeout\<close>: a handle that is not in the table any more is ignored.\<close>

definition clearTimeout :: "nat \<Rightarrow> 'v autosaver \<Rightarrow> 'v autosaver" where
  "clearTimeout h s = s\<lparr>timers := filter (\<lambda>t. fst t \<noteq> h) (timers s)\<rparr>"

text \<open>
  The delay a timer of the host runs with. The timer initialisation steps of the HTML
  standard take the delay as a signed 32-bit integer and read a negative one as 0: a
  delay is used as given below \<open>2\<^sup>3\<^sup>1\<close> only, from there to \<open>2\<^sup>3\<^sup>2\<close> it is 0, and so on
  modulo \<open>2\<^sup>3\<^sup>2\<close>. (Node.js replaces every delay above \<open>2\<^sup>3\<^sup>1 - 1\<close> by 1; the two hosts
  agree from 1 to \<open>2\<^sup>3\<^sup>1 - 1\<close>.) Delays are whole milliseconds.
\<close>

definition timer_delay :: "nat \<Rightarrow> nat" where
  "timer_delay delay =
     (let wrapped = delay mod 4294967296 in if wrapped < 2147483648 then wrapped else 0)"

text \<open>\<^verbatim>\<open>setTimeout\<close>: handles are positive and fresh.\<close>

definition setTimeout :: "string \<Rightarrow> string \<Rightarrow> nat \<Rightarrow> 'v autosaver \<Rightarrow> nat \<times> 'v autosaver" where
  "setTimeout elementType' elementId' delay s =
     (nextHandle s,
      s\<lparr>timers := timers s @
          [(nextHandle s, time s + timer_delay delay, elementType', elementId')],
        nextHandle := nextHandle s + 1\<rparr>)"

text \<open>\<^verbatim>\<open>autoSave\<close>; its \<^verbatim>\<open>delay\<close> is optional and defaults to 2000.\<close>

definition autoSave ::
  "string \<Rightarrow> string \<Rightarrow> 'v \<Rightarrow> nat option \<Rightarrow> 'v autosaver \<Rightarrow> 'v autosaver" where
  "autoSave elementType' elementId' v delay s =
     (let key = key_of elementType' elementId';
          s1 = (case autoSaveTimeouts s key of
                  None \<Rightarrow> s
                | Some existingTimeout \<Rightarrow>
                    if existingTimeout \<noteq> 0 then clearTimeout existingTimeout s else s);
          s2 = s1\<lparr>pendingChanges := (pendingChanges s1)(key \<mapsto> v)\<rparr>;
          (timeout, s3) = setTimeout elementType' elementId' (or_default delay 2000) s2
      in s3\<lparr>autoSaveTimeouts := (autoSaveTimeouts s3)(key \<mapsto> timeout)\<rparr>)"

text \<open>
  The timer callback up to its \<^verbatim>\<open>await\<close>: with a pending value it calls
  \<^verbatim>\<open>saveElement\<close> and waits; without one it does nothing.
\<close>

definition callback_start :: "string \<Rightarrow> string \<Rightarrow> 'v autosaver \<Rightarrow> 'v autosaver" where
  "callback_start elementType' elementId' s =
     (let key = key_of elementType' elementId' in
      case pendingChanges s key of
        None \<Rightarrow> s
      | Some pendingValue \<Rightarrow>
          s\<lparr>saveCalls := saveCalls s @
               [(elementType', elementId', pendingValue,
                 \<lparr>opt_autoSave = Some True, opt_validateData = None, opt_createBackup = None,
                  opt_showNotifications = Some False\<rparr>)],
            awaiting := awaiting s @ [key]\<rparr>)"

text \<open>The rest of the callback, once the awaited \<^verbatim>\<open>saveElement\<close> has returned.\<close>

definition callback_resume :: "string \<Rightarrow> 'v autosaver \<Rightarrow> 'v autosaver" where
  "callback_resume key s =
     s\<lparr>pendingChanges := (pendingChanges s)(key := None),
       autoSaveTimeouts := (autoSaveTimeouts s)(key := None)\<rparr>"

text \<open>
  Time passes: the timers due by then leave the table and their callbacks run, earliest
  first. No callback sets or clears a timer.
\<close>

definition elapse :: "nat \<Rightarrow> 'v autosaver \<Rightarrow> 'v autosaver" where
  "elapse d s =
     (let t = time s + d;
          due = filter (\<lambda>(h, at, ty, i). at \<le> t) (timers s);
          s1 = s\<lparr>time := t, timers := filter (\<lambda>(h, at, ty, i). \<not> at \<le> t) (timers s)\<rparr>
      in foldl (\<lambda>s' (h, at, ty, i). callback_start ty i s') s1
           (sort_key (\<lambda>(h, at, ty, i). at) due))"

text \<open>The \<open>n\<close>-th waiting callback resumes: its \<^verbatim>\<open>saveElement\<close> has returned.\<close>

definition settle :: "nat \<Rightarrow> 'v autosaver \<Rightarrow> 'v autosaver" where
  "settle n s =
     (if n < length (awaiting s)
      then callback_resume (awaiting s ! n)
             (s\<lparr>awaiting := take n (awaiting s) @ drop (Suc n) (awaiting s)\<rparr>)
      else s)"

text \<open>What happens to the coordinator, and a run of such events.\<close>

datatype 'v event =
    Edit string string 'v "nat option"
  | Elapse nat
  | Settle nat

fun step :: "'v autosaver \<Rightarrow> 'v event \<Rightarrow> 'v autosaver" where
  "step s (Edit elementType' elementId' v delay) = autoSave elementType' elementId' v delay s"
| "step s (Elapse d) = elapse d s"
| "step s (Settle n) = settle n s"

definition run :: "'v autosaver \<Rightarrow> 'v event list \<Rightarrow> 'v autosaver" where
  "run = foldl step"








section \<open>Example environments\<close>

text \<open>
  Concrete surroundings for the examples below: a signed-in client, a backend that cannot
  be reached and counts the calls it receives, an empty database, a table that holds one
  share object (as it would, had the save of a share link been accepted), a PostgreSQL seen on inputs where
  \<^verbatim>\<open>regexp_replace\<close> finds no match and documents are small, a
  \<^verbatim>\<open>JSON.stringify\<close> for a client that handles strings only, and the truthiness of
  JSON values that are all objects.
\<close>

definition signed_in :: "'b \<Rightarrow> int \<Rightarrow> ('j, 'b) world" where
  "signed_in b now =
     \<lparr>session = Some ''owner'', backend = b, toasts = [], emitted = [], clock = now,
      userAgent = ''agent''\<rparr>"

definition unreachable :: "('j, nat) supabase" where
  "unreachable =
     \<lparr>rpc_get_portfolio_data = (\<lambda>t i uid n. (Rejected ''Failed to fetch'', Suc n)),
      rpc_upsert_portfolio_data = (\<lambda>t i v j m uid n. (Rejected ''Failed to fetch'', Suc n)),
      rpc_bulk_update_portfolio_data = (\<lambda>us uid n. (Rejected ''Failed to fetch'', Suc n))\<rparr>"

definition empty_database :: "'j database" where
  "empty_database =
     \<lparr>portfolio_data_v2 = [], gen_random_uuid = (\<lambda>n. ''row-'' @ show_nat n), drawn = 0\<rparr>"

definition plain_builtins :: "'j builtins" where
  "plain_builtins =
     \<lparr>regexp_replace = (\<lambda>source pattern replacement flags. source),
      pg_column_size = (\<lambda>j. 0)\<rparr>"

definition no_stringify :: "unit \<Rightarrow> string option" where
  "no_stringify j = None"

definition objects_only :: "'j \<Rightarrow> bool" where
  "objects_only j = True"


definition no_options :: saveOptions where
  "no_options =
     \<lparr>opt_autoSave = None, opt_validateData = None, opt_createBackup = None,
      opt_showNotifications = None\<rparr>"



definition form_link :: form_share where
  "form_link =
     \<lparr>fs_id = ''row-0'', share_id = ''s1'', form_id = ''f1'', created_by = ''owner'',
      permissions = Some [''read''], password_hash = None, expires_at = Some 200,
      fs_is_active = Some True, access_count = Some 0, last_accessed_at = None,
      fs_created_at = Some 0, fs_updated_at = Some 0\<rparr>"

section \<open>Properties of the validator\<close>

lemma ci_prefix_simps [simp]:
  "ci_prefix [] s = True"
  "ci_prefix (p # ps) [] = False"
  "ci_prefix (p # ps) (c # cs) = (upper c = upper p \<and> ci_prefix ps cs)"
  by (auto simp: ci_prefix_def)

lemma replace_all_no_match: "\<not> occurs m s \<Longrightarrow> replace_all m s = s"
  by (induction s) (auto split: option.splits nat.splits)

lemma set_replace_char:
  "set (replace_char c r s) = (set s - {c}) \<union> (if c \<in> set s then set r else {})"
  by (induction s) (auto simp: replace_char_def)

lemma replace_char_absent: "c \<notin> set s \<Longrightarrow> replace_char c r s = s"
  by (induction s) (auto simp: replace_char_def)

text \<open>Only the character \<^verbatim>\<open><\<close> upper-cases to itself.\<close>

lemma upper_lt: "upper c = CHR ''<'' \<Longrightarrow> c = CHR ''<''"
  unfolding upper_def Let_def
  by (auto split: if_splits dest!: arg_cong[where f="of_char :: char \<Rightarrow> nat"])

lemma upper_lt_const: "upper CHR ''<'' = CHR ''<''"
  by (simp add: upper_def)

lemma match_script_head: "match_script (c # cs) = Some n \<Longrightarrow> c = CHR ''<''"
  by (simp add: match_script_def upper_lt_const upper_lt split: if_splits)

lemma no_script_match: "CHR ''<'' \<notin> set s \<Longrightarrow> \<not> occurs match_script s"
  by (induction s) (auto split: option.splits nat.splits dest: match_script_head)

text \<open>The sanitized text holds none of the four escaped characters.\<close>

lemma sanitizeText_escaped:
  "set (sanitizeText v) \<inter> {CHR ''<'', CHR ''>'', CHR 0x22, CHR 0x27} = {}"
  by (auto simp: sanitizeText_def Let_def set_replace_char split: if_splits)

lemma trim_Nil: "trim [] = []"
  by (simp add: trim_def)

lemma trim_trimmed:
  assumes ne: "s \<noteq> []" and h: "\<not> is_space (hd s)" and l: "\<not> is_space (last s)"
  shows "trim s = s"
proof -
  have 1: "dropWhile is_space s = s" using ne h by (cases s) auto
  obtain y ys where r: "rev s = y # ys" using ne by (cases "rev s") auto
  then have "y = last s" using ne by (metis hd_rev list.sel(1))
  then have "\<not> is_space y" using l by simp
  then have "dropWhile is_space (y # ys) = y # ys" by simp
  then have 2: "dropWhile is_space (rev s) = rev s" unfolding r .
  show ?thesis unfolding trim_def 1 2 by simp
qed

lemma trim_ends:
  assumes ne: "trim u \<noteq> []"
  shows "\<not> is_space (hd (trim u)) \<and> \<not> is_space (last (trim u))"
proof -
  let ?a = "dropWhile is_space u"
  let ?b = "dropWhile is_space (rev ?a)"
  have b_ne: "?b \<noteq> []" using ne by (simp add: trim_def)
  have a_ne: "?a \<noteq> []" using b_ne by (metis dropWhile.simps(1) rev.simps(1))
  have last_ok: "\<not> is_space (last (trim u))"
    using b_ne hd_dropWhile[of is_space "rev ?a"] by (simp add: trim_def last_rev)
  have "rev ?a = takeWhile is_space (rev ?a) @ ?b" by simp
  then have "?a = rev ?b @ rev (takeWhile is_space (rev ?a))"
    by (metis rev_append rev_rev_ident)
  then have "hd ?a = hd (rev ?b)" using b_ne by (metis hd_append2 rev_is_Nil_conv)
  moreover have "\<not> is_space (hd ?a)" using a_ne hd_dropWhile by blast
  ultimately have "\<not> is_space (hd (trim u))" by (simp add: trim_def)
  with last_ok show ?thesis by simp
qed

text \<open>An escape keeps a text free of white space at both ends.\<close>

lemma replace_char_ends:
  assumes "s \<noteq> []" "r \<noteq> []" "\<not> is_space (hd r)" "\<not> is_space (last r)"
    "\<not> is_space (hd s)" "\<not> is_space (last s)"
  shows "replace_char c r s \<noteq> [] \<and> \<not> is_space (hd (replace_char c r s))
     \<and> \<not> is_space (last (replace_char c r s))"
proof -
  have app: "\<And>xs ys. replace_char c r (xs @ ys) = replace_char c r xs @ replace_char c r ys"
    by (simp add: replace_char_def)
  have one: "\<And>x. replace_char c r [x] = (if x = c then r else [x])"
    by (simp add: replace_char_def)
  obtain x xs where s1: "s = x # xs" using assms(1) by (cases s) auto
  obtain ys y where s2: "s = ys @ [y]" using assms(1) by (cases s rule: rev_cases) auto
  have h: "replace_char c r s = replace_char c r [x] @ replace_char c r xs"
    using app[of "[x]" xs] s1 by simp
  have l: "replace_char c r s = replace_char c r ys @ replace_char c r [y]"
    using app[of ys "[y]"] s2 by simp
  have ne: "replace_char c r s \<noteq> []" using h one assms(2) by auto
  have "hd (replace_char c r s) = hd (replace_char c r [x])"
    using h one assms(2) by auto
  then have hd_ok: "\<not> is_space (hd (replace_char c r s))"
    using one assms(3,5) s1 by auto
  have "last (replace_char c r s) = last (replace_char c r [y])"
    using l one assms(2) by auto
  then have "\<not> is_space (last (replace_char c r s))"
    using one assms(4,6) s2 by auto
  with ne hd_ok show ?thesis by simp
qed

lemma sanitizeText_trimmed: "trim (sanitizeText v) = sanitizeText v"
proof -
  let ?t = "trim (replace_all match_handler
                        (replace_all match_javascript (replace_all match_script v)))"
  show ?thesis
  proof (cases "?t = []")
    case True
    have "sanitizeText v = []"
      unfolding sanitizeText_def Let_def True by (simp add: replace_char_def)
    then show ?thesis by (simp add: trim_Nil)
  next
    case False
    then have e0: "?t \<noteq> [] \<and> \<not> is_space (hd ?t) \<and> \<not> is_space (last ?t)"
      using trim_ends by blast
    let ?e1 = "replace_char CHR ''<'' ''&lt;'' ?t"
    have e1: "?e1 \<noteq> [] \<and> \<not> is_space (hd ?e1) \<and> \<not> is_space (last ?e1)"
      using e0 by (intro replace_char_ends) (simp_all add: is_space_def)
    let ?e2 = "replace_char CHR ''>'' ''&gt;'' ?e1"
    have e2: "?e2 \<noteq> [] \<and> \<not> is_space (hd ?e2) \<and> \<not> is_space (last ?e2)"
      using e1 by (intro replace_char_ends) (simp_all add: is_space_def)
    let ?e3 = "replace_char (CHR 0x22) ''&quot;'' ?e2"
    have e3: "?e3 \<noteq> [] \<and> \<not> is_space (hd ?e3) \<and> \<not> is_space (last ?e3)"
      using e2 by (intro replace_char_ends) (simp_all add: is_space_def)
    let ?e4 = "replace_char (CHR 0x27) ''&#x27;'' ?e3"
    have e4: "?e4 \<noteq> [] \<and> \<not> is_space (hd ?e4) \<and> \<not> is_space (last ?e4)"
      using e3 by (intro replace_char_ends) (simp_all add: is_space_def)
    have "sanitizeText v = ?e4" by (simp add: sanitizeText_def)
    with e4 show ?thesis by (simp add: trim_trimmed)
  qed
qed

text \<open>
  Sanitizing a sanitized text again changes nothing, as long as the first pass left no
  \<^verbatim>\<open>javascript:\<close> and no event-handler attribute behind.
\<close>

lemma sanitizeText_idem:
  assumes "\<not> occurs match_javascript (sanitizeText v)"
    and "\<not> occurs match_handler (sanitizeText v)"
  shows "sanitizeText (sanitizeText v) = sanitizeText v"
proof -
  let ?s = "sanitizeText v"
  have esc: "CHR ''<'' \<notin> set ?s" "CHR ''>'' \<notin> set ?s" "CHR 0x22 \<notin> set ?s" "CHR 0x27 \<notin> set ?s"
    using sanitizeText_escaped[of v] by auto
  have 1: "replace_all match_script ?s = ?s"
    using esc(1) by (simp add: no_script_match replace_all_no_match)
  have 2: "replace_all match_javascript ?s = ?s"
    using assms(1) by (rule replace_all_no_match)
  have 3: "replace_all match_handler ?s = ?s"
    using assms(2) by (rule replace_all_no_match)
  have "sanitizeText ?s = replace_char (CHR 0x27) ''&#x27;''
           (replace_char (CHR 0x22) ''&quot;''
             (replace_char CHR ''>'' ''&gt;''
               (replace_char CHR ''<'' ''&lt;'' ?s)))"
    unfolding sanitizeText_def[of ?s] Let_def 1 2 3 sanitizeText_trimmed ..
  then show ?thesis using esc by (simp add: replace_char_absent)
qed

text \<open>A text longer than the maximum is reported invalid, and so is the empty text.\<close>

lemma validateText_too_long: "length v > maxLength \<Longrightarrow> \<not> isValid (validateText v maxLength)"
  by (simp add: validateText_def Let_def)

lemma validateText_valid_iff:
  "isValid (validateText v maxLength) \<longleftrightarrow> v \<noteq> [] \<and> length v \<le> maxLength"
  by (auto simp: validateText_def Let_def)

lemma validateText_sanitized:
  "sanitizedValue (validateText v maxLength) = (if v = [] then None else Some (sanitizeText v))"
  by (simp add: validateText_def Let_def)

text \<open>The scenario of the specification: the script element goes, the text stays.\<close>

lemma validateText_script_scenario:
  "validateText ''<script>alert(1)</script>hi'' 100
     = \<lparr>isValid = True, errors = [], sanitizedValue = Some ''hi''\<rparr>"
  by code_simp

text \<open>
  C5, as amended. Let \<open>s\<close> be the sanitized form of an input and let it be non-empty and
  free of matches of \<^verbatim>\<open>/javascript:/i\<close> and \<^verbatim>\<open>/on\w+\s*=/i\<close>. Then sanitizing \<open>s\<close>
  again yields \<open>s\<close>, and validating \<open>s\<close> reports it valid exactly when \<open>s\<close> is no longer
  than the maximum.
\<close>

theorem validateText_resanitize:
  assumes "sanitizedValue (validateText x maxLength) = Some s"
    and "\<not> occurs match_javascript s"
    and "\<not> occurs match_handler s"
    and "s \<noteq> []"
  shows "sanitizedValue (validateText s maxLength) = Some s
     \<and> isValid (validateText s maxLength) = (length s \<le> maxLength)"
proof -
  have s: "s = sanitizeText x"
    using assms(1) by (simp add: validateText_sanitized split: if_splits)
  have "sanitizeText s = s"
    using assms(2,3) unfolding s by (rule sanitizeText_idem)
  then show ?thesis
    using assms(4) by (simp add: validateText_sanitized validateText_valid_iff)
qed

text \<open>C5, as amended, on a text with markup and none of the two patterns.\<close>

theorem validateText_resanitize_witness:
  "sanitizedValue (validateText ''<b>hi</b>'' 100) = Some ''&lt;b&gt;hi&lt;/b&gt;''
     \<and> \<not> occurs match_javascript ''&lt;b&gt;hi&lt;/b&gt;''
     \<and> \<not> occurs match_handler ''&lt;b&gt;hi&lt;/b&gt;''
     \<and> sanitizedValue (validateText ''&lt;b&gt;hi&lt;/b&gt;'' 100) = Some ''&lt;b&gt;hi&lt;/b&gt;''
     \<and> isValid (validateText ''&lt;b&gt;hi&lt;/b&gt;'' 100)"
proof -
  have 1: "sanitizedValue (validateText ''<b>hi</b>'' 100) = Some ''&lt;b&gt;hi&lt;/b&gt;''"
    by code_simp
  have 2: "\<not> occurs match_javascript ''&lt;b&gt;hi&lt;/b&gt;''"
    by code_simp
  have 3: "\<not> occurs match_handler ''&lt;b&gt;hi&lt;/b&gt;''"
    by code_simp
  have 4: "''&lt;b&gt;hi&lt;/b&gt;'' \<noteq> []"
    by simp
  show ?thesis
    using validateText_resanitize [OF 1 2 3 4] 1 2 3 by simp
qed

text \<open>
  C5 as stated fails: a single space is a valid text whose sanitized form is the empty
  text; the empty text is not valid, and validating it yields no sanitized form at all.
\<close>

theorem validateText_revalidate_counterexample:
  "isValid (validateText '' '' 10000)
     \<and> sanitizedValue (validateText '' '' 10000) = Some []
     \<and> \<not> isValid (validateText [] 10000)
     \<and> sanitizedValue (validateText [] 10000) = None"
  by code_simp

text \<open>
  On such a text a second pass removes what the first one left, so the two passes differ.
\<close>

lemma sanitizeText_twice_differs:
  "sanitizeText ''javajavascript:script:alert(1)'' = ''javascript:alert(1)''
   \<and> sanitizeText ''javascript:alert(1)'' = ''alert(1)''"
  by code_simp

text \<open>The same happens with an event handler wrapped around another.\<close>

lemma validateText_nested_handler:
  "validateText ''oonclick=nclick=x'' 100
     = \<lparr>isValid = True, errors = [], sanitizedValue = Some ''onclick=x''\<rparr>"
  by code_simp

text \<open>
  C6 fails on nested input: the single pass that removes \<^verbatim>\<open>javascript:\<close> joins the
  text around the match into a new \<^verbatim>\<open>javascript:\<close>, which stays in the sanitized value
  of a text reported valid.
\<close>

theorem validateText_nested_javascript:
  "validateText ''javajavascript:script:alert(1)'' 100
     = \<lparr>isValid = True, errors = [], sanitizedValue = Some ''javascript:alert(1)''\<rparr>"
  by code_simp

section \<open>Properties of the remote store client\<close>

text \<open>\<^verbatim>\<open>getElement\<close> touches nothing but the backend.\<close>

lemma getElement_frame:
  "clock (snd (getElement S truthy t i w)) = clock w"
  "session (snd (getElement S truthy t i w)) = session w"
  "toasts (snd (getElement S truthy t i w)) = toasts w"
  "emitted (snd (getElement S truthy t i w)) = emitted w"
  "userAgent (snd (getElement S truthy t i w)) = userAgent w"
  by (simp_all add: getElement_def split: prod.splits)

lemma getElement_returns: "\<exists>v. fst (getElement S truthy t i w) = Inr v"
  by (simp add: getElement_def split: prod.splits sum.splits)

text \<open>A falsy JSON value in \<^verbatim>\<open>json_data\<close> gives way to \<^verbatim>\<open>element_value\<close>.\<close>

lemma getElement_try_falsy:
  assumes "json_data item = Some j" and "\<not> truthy j"
  shows "getElement_try truthy (Success (item # rest)) = Inr (map_option Str (element_value item))"
  using assms by (simp add: getElement_try_def)

text \<open>
  C10. \<^verbatim>\<open>getElement\<close> never throws: it always returns a value. When the remote call
  comes back with an error, is rejected, or finds no row, that value is \<^verbatim>\<open>null\<close>, so a
  failed read and a missing element look the same.
\<close>

theorem getElement_never_throws:
  "(\<exists>v. fst (getElement S truthy t i w) = Inr v)
     \<and> (fst (rpc_get_portfolio_data S (Some t) (Some i) (session w) (backend w)) = Failure msg
          \<or> fst (rpc_get_portfolio_data S (Some t) (Some i) (session w) (backend w)) = Rejected msg
          \<or> fst (rpc_get_portfolio_data S (Some t) (Some i) (session w) (backend w)) = Success []
        \<longrightarrow> fst (getElement S truthy t i w) = Inr None)"
  by (auto simp: getElement_def getElement_try_def split: prod.splits rpc_result.splits sum.splits)

text \<open>C10 at a backend that cannot be reached.\<close>

theorem getElement_never_throws_witness:
  "fst (rpc_get_portfolio_data (unreachable :: (unit, nat) supabase) (Some ''text'') (Some ''a1'')
          (session (signed_in 0 1000 :: (unit, nat) world)) (backend (signed_in 0 1000 :: (unit, nat) world)))
      = Rejected ''Failed to fetch''
   \<and> fst (getElement unreachable objects_only ''text'' ''a1'' (signed_in 0 1000 :: (unit, nat) world)) = Inr None"
  using getElement_never_throws [of unreachable objects_only "''text''" "''a1''" "signed_in 0 1000 :: (unit, nat) world" "''Failed to fetch''"]
  by (simp add: unreachable_def signed_in_def)

text \<open>What the validation step of \<^verbatim>\<open>saveElement\<close> rejects, and with which errors.\<close>

lemma validate_value_rejects:
  "validate_value stringify v = Inl errs \<longleftrightarrow>
     (case v of
        Str s \<Rightarrow> \<not> isValid (validateText s 10000) \<and> errs = errors (validateText s 10000)
      | Obj j \<Rightarrow> \<not> isValid (validateJson stringify j 1048576)
                 \<and> errs = errors (validateJson stringify j 1048576))"
  by (cases v) (auto simp: validate_value_def Let_def split: option.splits)

text \<open>
  C7. With a session and validation switched on, a value the validator rejects makes
  \<^verbatim>\<open>saveElement\<close> return \<^verbatim>\<open>{success: false}\<close> with exactly the validator's errors;
  the backend is left as it was, whatever the remote functions would do when called, and
  no change event is emitted.
\<close>

theorem saveElement_validation_failure:
  assumes "session w = Some user"
    and "or_default (opt_validateData options) True"
    and "case v of Str s \<Rightarrow> \<not> isValid (validateText s 10000)
                 | Obj j \<Rightarrow> \<not> isValid (validateJson stringify j 1048576)"
  shows "fst (saveElement S stringify truthy t i v options w)
           = \<lparr>success = False, data = None,
              save_errors = Some (case v of Str s \<Rightarrow> errors (validateText s 10000)
                                   | Obj j \<Rightarrow> errors (validateJson stringify j 1048576))\<rparr>
     \<and> backend (snd (saveElement S stringify truthy t i v options w)) = backend w
     \<and> emitted (snd (saveElement S stringify truthy t i v options w)) = emitted w"
proof -
  let ?errs = "case v of Str s \<Rightarrow> errors (validateText s 10000)
                      | Obj j \<Rightarrow> errors (validateJson stringify j 1048576)"
  have "validate_value stringify v = Inl ?errs"
    using assms(3) by (cases v) (simp_all add: validate_value_rejects)
  then show ?thesis
    using assms(1,2) by (simp add: saveElement_def Let_def)
qed

text \<open>
  C7 at the empty string, on a backend that counts every call it receives: the count
  stays at zero.
\<close>

theorem saveElement_validation_failure_witness:
  "session (signed_in 0 1000 :: (unit, nat) world) = Some ''owner''
   \<and> or_default (opt_validateData no_options) True
   \<and> \<not> isValid (validateText [] 10000)
   \<and> fst (saveElement unreachable no_stringify objects_only ''text'' ''a1'' (Str []) no_options
            (signed_in 0 1000 :: (unit, nat) world))
       = \<lparr>success = False, data = None,
          save_errors = Some [''Value must be a non-empty string'']\<rparr>
   \<and> backend (snd (saveElement unreachable no_stringify objects_only ''text'' ''a1'' (Str []) no_options
            (signed_in 0 1000 :: (unit, nat) world))) = 0"
proof -
  have 1: "session (signed_in 0 1000 :: (unit, nat) world) = Some ''owner''"
    by (simp add: signed_in_def)
  have 2: "or_default (opt_validateData no_options) True"
    by (simp add: or_default_def no_options_def)
  have 3: "case (Str [] :: unit payload) of Str s \<Rightarrow> \<not> isValid (validateText s 10000)
                 | Obj j \<Rightarrow> \<not> isValid (validateJson no_stringify j 1048576)"
    by (simp add: validateText_def)
  have 4: "errors (validateText [] 10000) = [''Value must be a non-empty string'']"
    by (simp add: validateText_def)
  have 5: "backend (signed_in 0 1000 :: (unit, nat) world) = 0"
    by (simp add: signed_in_def)
  show ?thesis
    using saveElement_validation_failure [OF 1 2 3, of unreachable objects_only "''text''" "''a1''"] 1 2 4 5
    by (simp add: validateText_def)
qed

text \<open>The validation trigger changes no column but \<^verbatim>\<open>element_value\<close>.\<close>

lemma validate_portfolio_data_keeps:
  assumes "validate_portfolio_data B uid r = Inr r'"
  shows "row_id r' = row_id r \<and> element_type r' = element_type r
     \<and> element_id r' = element_id r \<and> user_id r' = user_id r"
  using assms
  by (cases "element_value r")
     (auto simp: validate_portfolio_data_def Let_def split: if_splits)

text \<open>
  The id that \<^verbatim>\<open>upsert_portfolio_data\<close> returns is the id of a row of the table that
  has the key of the call.
\<close>

lemma upsert_row:
  assumes "upsert_portfolio_data B (Some u) now t i v j m db = Inr (new_id, db')"
  shows "\<exists>row \<in> set (portfolio_data_v2 db'). row_id row = new_id \<and> element_type row = t
           \<and> element_id row = i \<and> user_id row = u"
proof -
  let ?proposed = "\<lparr>row_id = gen_random_uuid db (drawn db), element_type = t,
                  element_id = i, element_value = v,
                  json_data = j, metadata = m, version = 1,
                  updated_at = now, user_id = u, is_active = True,
                  created_at = now\<rparr>"
  let ?db1 = "db\<lparr>drawn := drawn db + 1\<rparr>"
  from assms obtain EXCLUDED where ex: "validate_portfolio_data B (Some u) ?proposed = Inr EXCLUDED"
    by (cases "validate_portfolio_data B (Some u) ?proposed")
       (simp_all add: upsert_portfolio_data_def Let_def)
  have keys: "element_type EXCLUDED = t" "element_id EXCLUDED = i" "user_id EXCLUDED = u"
    using validate_portfolio_data_keeps[OF ex] by simp_all
  show ?thesis
  proof (cases "find (conflicts EXCLUDED) (portfolio_data_v2 ?db1)")
    case None
    then have "new_id = row_id EXCLUDED"
      and "db' = ?db1\<lparr>portfolio_data_v2 := portfolio_data_v2 ?db1 @ [EXCLUDED]\<rparr>"
      using assms ex by (simp_all add: upsert_portfolio_data_def Let_def)
    then show ?thesis using keys by simp
  next
    case (Some OLD)
    then have old: "OLD \<in> set (portfolio_data_v2 db)" "conflicts EXCLUDED OLD"
      by (auto simp: find_Some_iff)
    let ?NEW0 = "OLD\<lparr>element_value := element_value EXCLUDED, json_data := json_data EXCLUDED,
                      metadata := metadata EXCLUDED, updated_at := now\<rparr>"
    from assms ex Some obtain NEW1 where n1: "create_portfolio_backup now OLD ?NEW0 = Inr NEW1"
      by (cases "create_portfolio_backup now OLD ?NEW0")
         (simp_all add: upsert_portfolio_data_def Let_def)
    from assms ex Some n1 obtain NEW where n: "validate_portfolio_data B (Some u) NEW1 = Inr NEW"
      by (cases "validate_portfolio_data B (Some u) NEW1")
         (simp_all add: upsert_portfolio_data_def Let_def)
    have res: "new_id = row_id NEW"
      "db' = ?db1\<lparr>portfolio_data_v2 :=
               map (\<lambda>r. if conflicts EXCLUDED r then NEW else r) (portfolio_data_v2 ?db1)\<rparr>"
      using assms ex Some n1 n by (simp_all add: upsert_portfolio_data_def Let_def)
    have "NEW1 = ?NEW0\<lparr>version := version OLD + 1, updated_at := now\<rparr>"
      using n1 by (auto simp: create_portfolio_backup_def split: if_splits)
    then have k1: "element_type NEW1 = element_type OLD" "element_id NEW1 = element_id OLD"
      "user_id NEW1 = user_id OLD" by simp_all
    have k: "element_type NEW = t" "element_id NEW = i" "user_id NEW = u"
      using validate_portfolio_data_keeps[OF n] k1 old(2) keys by (simp_all add: conflicts_def)
    have "NEW \<in> set (portfolio_data_v2 db')"
      using old unfolding res(2) by (auto simp: image_iff intro!: bexI[of _ OLD])
    then show ?thesis using k res(1) by auto
  qed
qed

text \<open>
  C8, as amended. When \<^verbatim>\<open>saveElement\<close> succeeds on the SQL functions, the \<^verbatim>\<open>data\<close>
  of its result is the id of the row that now holds the element for the user of the
  session; it is not the value.
\<close>

theorem saveElement_returns_row_id:
  assumes "saveElement (postgres B now) stringify truthy t i v options w = (r, w')"
    and "success r"
  shows "\<exists>row \<in> set (portfolio_data_v2 (backend w')).
           data r = Some (row_id row) \<and> element_type row = t \<and> element_id row = i
         \<and> session w = Some (user_id row)"
proof -
  obtain user where u: "session w = Some user"
    using assms by (cases "session w") (auto simp: saveElement_def Let_def saveElement_catch_def)
  let ?validated = "if or_default (opt_validateData options) True
                    then validate_value stringify v else Inr v"
  obtain value1 where v1: "?validated = Inr value1"
    using assms u by (cases ?validated) (auto simp: saveElement_def Let_def split: if_splits)
  obtain currentData w1 where g: "getElement (postgres B now) truthy t i w = (currentData, w1)"
    by force
  have s1: "session w1 = Some user"
    using g getElement_frame(2)[of "postgres B now" truthy t i w] u by simp
  let ?ev = "case value1 of Str s \<Rightarrow> Some s | Obj j \<Rightarrow> None"
  let ?js = "case value1 of Str s \<Rightarrow> None | Obj j \<Rightarrow> Some j"
  let ?m = "Save_metadata (or_default (opt_autoSave options) False) (clock w1) (userAgent w1)"
  let ?up = "upsert_portfolio_data B (Some user) now t i ?ev ?js ?m (backend w1)"
  obtain new_id db' where up: "?up = Inr (new_id, db')"
    and r: "data r = Some new_id" and b: "backend w' = db'"
    using assms u v1 g s1
    by (cases ?up)
       (auto simp: saveElement_def Let_def postgres_def saveElement_catch_def split: if_splits)
  from upsert_row[OF up] show ?thesis using r b u by auto
qed

lemma show_nat_0: "show_nat 0 = ''0''"
  by code_simp

lemma show_nat_1: "show_nat 1 = ''1''"
  by code_simp

lemma validateText_hello:
  "validateText ''hello'' 10000 = \<lparr>isValid = True, errors = [], sanitizedValue = Some ''hello''\<rparr>"
  by code_simp

text \<open>Saving the text \<^verbatim>\<open>hello\<close> in an empty database.\<close>

lemma saveElement_hello:
  "saveElement (postgres plain_builtins 1000) no_stringify objects_only ''text'' ''a1'' (Str ''hello'')
       no_options (signed_in empty_database 1000 :: (unit, unit database) world)
     = (\<lparr>success = True, data = Some ''row-0'', save_errors = None\<rparr>,
        \<lparr>session = Some ''owner'',
         backend =
           \<lparr>portfolio_data_v2 =
              [\<lparr>row_id = ''row-0'', element_type = ''text'',
                element_id = ''a1'', element_value = Some ''hello'',
                json_data = None, metadata = Save_metadata False 1000 ''agent'', version = 1,
                updated_at = 1000, user_id = ''owner'', is_active = True,
                created_at = 1000\<rparr>],
            gen_random_uuid = (\<lambda>n. ''row-'' @ show_nat n), drawn = 1\<rparr>,
         toasts = [Toast_success ''Changes saved successfully!''],
         emitted = [\<lparr>elementType = ''text'', elementId = ''a1'', oldValue = None,
                       newValue = Str ''hello'', timestamp = 1000, userId = ''owner''\<rparr>],
         clock = 1000, userAgent = ''agent''\<rparr>)"
  by (simp add: saveElement_def Let_def postgres_def signed_in_def empty_database_def
        plain_builtins_def no_options_def or_default_def validate_value_def validateText_hello
        getElement_def getElement_try_def get_portfolio_data_def upsert_portfolio_data_def
        validate_portfolio_data_def sql_trim_def show_nat_0)

text \<open>C8, as amended, on that save.\<close>

theorem saveElement_returns_row_id_witness:
  "success (fst (saveElement (postgres plain_builtins 1000) no_stringify objects_only ''text'' ''a1'' (Str ''hello'')
              no_options (signed_in empty_database 1000 :: (unit, unit database) world)))
   \<and> data (fst (saveElement (postgres plain_builtins 1000) no_stringify objects_only ''text'' ''a1'' (Str ''hello'')
              no_options (signed_in empty_database 1000 :: (unit, unit database) world))) = Some ''row-0''
   \<and> map row_id (portfolio_data_v2 (backend (snd (saveElement (postgres plain_builtins 1000) no_stringify objects_only ''text'' ''a1'' (Str ''hello'')
              no_options (signed_in empty_database 1000 :: (unit, unit database) world))))) = [''row-0'']"
  using saveElement_returns_row_id
          [of plain_builtins 1000 no_stringify objects_only "''text''" "''a1''" "Str ''hello''" no_options
              "signed_in empty_database 1000 :: (unit, unit database) world"]
  by (simp add: saveElement_hello)

text \<open>
  C8 as stated fails: the save succeeds and stores \<^verbatim>\<open>hello\<close>, and the \<^verbatim>\<open>data\<close> it
  returns is the id of the row.
\<close>

theorem saveElement_data_counterexample:
  "success (fst (saveElement (postgres plain_builtins 1000) no_stringify objects_only ''text'' ''a1'' (Str ''hello'')
              no_options (signed_in empty_database 1000 :: (unit, unit database) world)))
   \<and> map element_value (portfolio_data_v2 (backend (snd (saveElement (postgres plain_builtins 1000) no_stringify objects_only ''text'' ''a1'' (Str ''hello'')
              no_options (signed_in empty_database 1000 :: (unit, unit database) world))))) = [Some ''hello'']
   \<and> data (fst (saveElement (postgres plain_builtins 1000) no_stringify objects_only ''text'' ''a1'' (Str ''hello'')
              no_options (signed_in empty_database 1000 :: (unit, unit database) world))) \<noteq> Some ''hello''"
  by (simp add: saveElement_hello)

text \<open>
  Whatever the backend does, \<^verbatim>\<open>bulkSave\<close> has two kinds of result: a success without
  errors, or a failure that counts nothing and carries one message.
\<close>

lemma bulkSave_result_shapes:
  "(bulk_success (fst (bulkSave S updates w)) \<and> bulk_errors (fst (bulkSave S updates w)) = [])
   \<or> (\<exists>message. fst (bulkSave S updates w)
          = \<lparr>bulk_success = False, savedCount = 0, bulk_errors = [message]\<rparr>)"
  by (auto simp: bulkSave_def Let_def bulkSave_catch_def
        split: option.splits prod.splits rpc_result.splits)

text \<open>The loop of \<^verbatim>\<open>bulk_update_portfolio_data\<close> counts every element of the array.\<close>

lemma bulk_loop_count:
  "bulk_loop B uid now us n db = Inr (m, db') \<Longrightarrow> m = n + length us"
proof (induction us arbitrary: n db)
  case Nil
  then show ?case by simp
next
  case (Cons u us)
  obtain t i v j md where u: "u = Update_record t i v j md" by (cases u)
  from Cons.prems obtain new_id db1 where
    "upsert_portfolio_data B uid now t i v j md db = Inr (new_id, db1)"
    and "bulk_loop B uid now us (n + 1) db1 = Inr (m, db')"
    unfolding u by (cases "upsert_portfolio_data B uid now t i v j md db") auto
  then show ?case using Cons.IH by fastforce
qed

text \<open>
  C9, as amended. On the SQL functions a bulk save is all or nothing: either every item is
  applied and the result is a success that counts the whole batch, with no errors; or the
  result is a failure with count zero and one error message, and the backend is as it
  was before the call.
\<close>

theorem bulkSave_all_or_nothing:
  assumes "bulkSave (postgres B now) updates w = (r, w')"
  shows "(bulk_success r \<and> savedCount r = length updates \<and> bulk_errors r = [])
       \<or> (\<not> bulk_success r \<and> savedCount r = 0 \<and> (\<exists>message. bulk_errors r = [message])
            \<and> backend w' = backend w)"
proof (cases "session w")
  case None
  then show ?thesis
    using assms by (auto simp: bulkSave_def bulkSave_catch_def)
next
  case (Some user)
  let ?bulkData = "map (\<lambda>(t, i, v).
                        Update_record t i
                          (case v of Str s \<Rightarrow> Some s | Obj j \<Rightarrow> None)
                          (case v of Str s \<Rightarrow> None | Obj j \<Rightarrow> Some j)
                          (Bulk_metadata (clock w)))
                     updates"
  show ?thesis
  proof (cases "bulk_loop B (Some user) now ?bulkData 0 (backend w)")
    case (Inl e)
    then show ?thesis
      using assms Some
      by (auto simp: bulkSave_def Let_def postgres_def bulk_update_portfolio_data_def
            bulkSave_catch_def)
  next
    case (Inr a)
    obtain n db' where a: "a = (n, db')" by (cases a)
    have "n = length updates"
      using bulk_loop_count[OF Inr[unfolded a]] by simp
    then show ?thesis
      using assms Some Inr a
      by (auto simp: bulkSave_def Let_def postgres_def bulk_update_portfolio_data_def)
  qed
qed

text \<open>
  A batch of two whose second item has element type \<^verbatim>\<open>form\<close>, which the validation
  trigger rejects.
\<close>

lemma bulkSave_rejected_item:
  "bulkSave (postgres plain_builtins 1000)
       [(''text'', ''id1'', Str ''v1''), (''form'', ''id2'', Str ''v2'')]
       (signed_in empty_database 1000 :: (unit, unit database) world)
     = (\<lparr>bulk_success = False, savedCount = 0,
          bulk_errors = [''Invalid element_type: form'']\<rparr>,
        \<lparr>session = Some ''owner'', backend = empty_database,
         toasts = [Toast_error ''Bulk save failed: Invalid element_type: form''],
         emitted = [], clock = 1000, userAgent = ''agent''\<rparr>)"
  by (simp add: bulkSave_def Let_def postgres_def signed_in_def
        plain_builtins_def bulk_update_portfolio_data_def upsert_portfolio_data_def
        validate_portfolio_data_def sql_trim_def bulkSave_catch_def
        empty_database_def)

lemma bulkSave_first_item_alone:
  "fst (bulkSave (postgres plain_builtins 1000) [(''text'', ''id1'', Str ''v1'')]
       (signed_in empty_database 1000 :: (unit, unit database) world))
     = \<lparr>bulk_success = True, savedCount = 1, bulk_errors = []\<rparr>"
  by (simp add: bulkSave_def Let_def postgres_def signed_in_def
        plain_builtins_def bulk_update_portfolio_data_def upsert_portfolio_data_def
        validate_portfolio_data_def sql_trim_def bulkSave_catch_def
        empty_database_def)

text \<open>C9, as amended, on that batch.\<close>

theorem bulkSave_all_or_nothing_witness:
  "\<not> bulk_success (fst (bulkSave (postgres plain_builtins 1000)
              [(''text'', ''id1'', Str ''v1''), (''form'', ''id2'', Str ''v2'')]
              (signed_in empty_database 1000 :: (unit, unit database) world)))
   \<and> savedCount (fst (bulkSave (postgres plain_builtins 1000)
              [(''text'', ''id1'', Str ''v1''), (''form'', ''id2'', Str ''v2'')]
              (signed_in empty_database 1000 :: (unit, unit database) world))) = 0
   \<and> backend (snd (bulkSave (postgres plain_builtins 1000)
              [(''text'', ''id1'', Str ''v1''), (''form'', ''id2'', Str ''v2'')]
              (signed_in empty_database 1000 :: (unit, unit database) world))) = empty_database"
  using bulkSave_all_or_nothing [OF bulkSave_rejected_item]
  by (simp add: bulkSave_rejected_item)

text \<open>
  C9 as stated fails: the first item alone is saved, the second is rejected, and the batch
  of both reports count zero, not one, and leaves the first item unsaved.
\<close>

theorem bulkSave_partial_counterexample:
  "savedCount (fst (bulkSave (postgres plain_builtins 1000) [(''text'', ''id1'', Str ''v1'')]
              (signed_in empty_database 1000 :: (unit, unit database) world))) = 1
   \<and> bulk_errors (fst (bulkSave (postgres plain_builtins 1000)
              [(''text'', ''id1'', Str ''v1''), (''form'', ''id2'', Str ''v2'')]
              (signed_in empty_database 1000 :: (unit, unit database) world))) = [''Invalid element_type: form'']
   \<and> savedCount (fst (bulkSave (postgres plain_builtins 1000)
              [(''text'', ''id1'', Str ''v1''), (''form'', ''id2'', Str ''v2'')]
              (signed_in empty_database 1000 :: (unit, unit database) world))) \<noteq> 1
   \<and> portfolio_data_v2 (backend (snd (bulkSave (postgres plain_builtins 1000)
              [(''text'', ''id1'', Str ''v1''), (''form'', ''id2'', Str ''v2'')]
              (signed_in empty_database 1000 :: (unit, unit database) world)))) = []"
  unfolding bulkSave_rejected_item bulkSave_first_item_alone
  by (simp add: empty_database_def)

section \<open>Properties of share-link validation\<close>

text \<open>
  What the checks of \<^verbatim>\<open>validateShareLink\<close> accept, given what \<^verbatim>\<open>getElement\<close>
  returned: an active share object whose expiry is not before the time of the call. The
  guard is \<^verbatim>\<open>new Date(shareData.expiresAt) < new Date()\<close>, so the instant of expiry
  itself passes.
\<close>

lemma checkShareData_valid_iff:
  "checkShareData now sd = Inr v \<longleftrightarrow>
     (\<exists>share. sd = Some (Obj share) \<and> v = Obj share \<and> isActive share \<and> now \<le> expiresAt share)"
  by (auto simp: checkShareData_def split: option.splits payload.splits)


lemma getElement_reads_only: "snd (getElement (postgres B now) truthy t i w) = w"
  by (simp add: getElement_def postgres_def split: sum.splits)



text \<open>
  A table that satisfies the \<^verbatim>\<open>CHECK\<close> constraint on \<^verbatim>\<open>element_type\<close> still does
  after each of the three remote functions: no call puts a share element into it.
\<close>

lemma validate_portfolio_data_type:
  assumes "validate_portfolio_data B uid r = Inr r'"
  shows "element_type r' \<in> set [''text'', ''image'', ''project'', ''education'', ''profile'']"
  using assms
  by (cases "element_value r")
     (auto simp: validate_portfolio_data_def Let_def split: if_splits)

lemma upsert_keeps_check:
  assumes "upsert_portfolio_data B uid now t i v j m db = Inr (new_id, db')"
    and "element_type_check db"
  shows "element_type_check db'"
proof -
  obtain u where u: "uid = Some u"
    using assms(1) by (cases uid) (simp_all add: upsert_portfolio_data_def)
  let ?proposed = "\<lparr>row_id = gen_random_uuid db (drawn db), element_type = t,
                  element_id = i, element_value = v,
                  json_data = j, metadata = m, version = 1,
                  updated_at = now, user_id = u, is_active = True,
                  created_at = now\<rparr>"
  let ?db1 = "db\<lparr>drawn := drawn db + 1\<rparr>"
  from assms(1) obtain EXCLUDED where ex: "validate_portfolio_data B (Some u) ?proposed = Inr EXCLUDED"
    unfolding u
    by (cases "validate_portfolio_data B (Some u) ?proposed")
       (simp_all add: upsert_portfolio_data_def Let_def)
  show ?thesis
  proof (cases "find (conflicts EXCLUDED) (portfolio_data_v2 ?db1)")
    case None
    then have "db' = ?db1\<lparr>portfolio_data_v2 := portfolio_data_v2 ?db1 @ [EXCLUDED]\<rparr>"
      using assms(1) ex unfolding u by (simp add: upsert_portfolio_data_def Let_def)
    then show ?thesis
      using assms(2) validate_portfolio_data_type[OF ex]
      by (simp add: element_type_check_def)
  next
    case (Some OLD)
    let ?NEW0 = "OLD\<lparr>element_value := element_value EXCLUDED, json_data := json_data EXCLUDED,
                      metadata := metadata EXCLUDED, updated_at := now\<rparr>"
    from assms(1) ex Some obtain NEW1 where n1: "create_portfolio_backup now OLD ?NEW0 = Inr NEW1"
      unfolding u
      by (cases "create_portfolio_backup now OLD ?NEW0")
         (simp_all add: upsert_portfolio_data_def Let_def)
    from assms(1) ex Some n1 obtain NEW where n: "validate_portfolio_data B (Some u) NEW1 = Inr NEW"
      unfolding u
      by (cases "validate_portfolio_data B (Some u) NEW1")
         (simp_all add: upsert_portfolio_data_def Let_def)
    have "db' = ?db1\<lparr>portfolio_data_v2 :=
               map (\<lambda>r. if conflicts EXCLUDED r then NEW else r) (portfolio_data_v2 ?db1)\<rparr>"
      using assms(1) ex Some n1 n unfolding u by (simp add: upsert_portfolio_data_def Let_def)
    moreover have "list_all P (map (\<lambda>r. if c r then NEW else r) rows)"
      if "list_all P rows" and "P NEW" for P c and rows :: "'a portfolio_row list"
      using that by (induction rows) simp_all
    ultimately show ?thesis
      using assms(2) validate_portfolio_data_type[OF n]
      by (simp add: element_type_check_def)
  qed
qed

lemma bulk_loop_keeps_check:
  assumes "bulk_loop B uid now us n db = Inr (m, db')" and "element_type_check db"
  shows "element_type_check db'"
  using assms
proof (induction us arbitrary: n db)
  case Nil
  then show ?case by simp
next
  case (Cons u us)
  obtain t i v j md where u: "u = Update_record t i v j md" by (cases u)
  from Cons.prems(1) obtain new_id db1 where
    1: "upsert_portfolio_data B uid now t i v j md db = Inr (new_id, db1)"
    and 2: "bulk_loop B uid now us (n + 1) db1 = Inr (m, db')"
    unfolding u by (cases "upsert_portfolio_data B uid now t i v j md db") auto
  from Cons.IH[OF 2 upsert_keeps_check[OF 1 Cons.prems(2)]] show ?case .
qed

lemma postgres_keeps_check:
  assumes "element_type_check db"
  shows "element_type_check (snd (rpc_get_portfolio_data (postgres B now) t i uid db))"
    and "element_type_check (snd (rpc_upsert_portfolio_data (postgres B now) ty ei v j m uid db))"
    and "element_type_check (snd (rpc_bulk_update_portfolio_data (postgres B now) us uid db))"
proof -
  show "element_type_check (snd (rpc_get_portfolio_data (postgres B now) t i uid db))"
    using assms by (simp add: postgres_def split: sum.splits)
  show "element_type_check (snd (rpc_upsert_portfolio_data (postgres B now) ty ei v j m uid db))"
    using assms upsert_keeps_check[of B uid now ty ei v j m db]
    by (auto simp: postgres_def split: sum.splits)
  show "element_type_check (snd (rpc_bulk_update_portfolio_data (postgres B now) us uid db))"
  proof (cases uid)
    case None
    then show ?thesis using assms by (simp add: postgres_def bulk_update_portfolio_data_def)
  next
    case (Some u)
    then show ?thesis
      using assms bulk_loop_keeps_check[of B uid now us 0 db]
      by (auto simp: postgres_def bulk_update_portfolio_data_def split: sum.splits)
  qed
qed

text \<open>
  \<^verbatim>\<open>validateShareLink\<close> makes one remote call, the read of \<^verbatim>\<open>getElement\<close>: on the
  SQL functions it leaves everything as it was, whatever it finds.
\<close>

lemma validateShareLink_reads_only:
  "snd (validateShareLink (postgres B now) truthy sid w) = w"
proof -
  obtain got w1 where g: "getElement (postgres B now) truthy ''share'' sid w = (got, w1)"
    by (cases "getElement (postgres B now) truthy ''share'' sid w")
  then have "w1 = w"
    using getElement_reads_only[of B now truthy "''share''" sid w] by simp
  then show ?thesis by (simp add: validateShareLink_def g)
qed

text \<open>
  \<^verbatim>\<open>get_portfolio_data\<close> returns the caller's own active rows only. Unless the table
  holds an active share element with the id asked for that belongs to the user of the
  session, the link is reported as not found: so it is for every caller without a session
  and on every table without share elements.
\<close>

lemma validateShareLink_not_found:
  assumes "list_all (\<lambda>row. \<not> (session w = Some (user_id row) \<and> is_active row
                       \<and> element_type row = ''share'' \<and> element_id row = sid))
             (portfolio_data_v2 (backend w))"
  shows "fst (validateShareLink (postgres B now) truthy sid w) = Inl ''Share link not found''"
proof -
  have "filter (\<lambda>pd. user_id pd = u \<and> is_active pd \<and> element_type pd = ''share''
            \<and> element_id pd = sid) (portfolio_data_v2 (backend w)) = []" if "session w = Some u" for u
    using assms that by (auto simp: filter_empty_conv list_all_iff)
  then have n: "fst (getElement (postgres B now) truthy ''share'' sid w) = Inr None"
    by (cases "session w")
       (simp_all add: getElement_def getElement_try_def postgres_def get_portfolio_data_def)
  obtain got w1 where g: "getElement (postgres B now) truthy ''share'' sid w = (got, w1)"
    by (cases "getElement (postgres B now) truthy ''share'' sid w")
  then have "got = Inr None" using n by simp
  then show ?thesis
    by (simp add: validateShareLink_def g checkShareData_def)
qed

text \<open>On a table that satisfies the constraint, no share link validates.\<close>

lemma validateShareLink_checked:
  assumes "element_type_check (backend w)"
  shows "fst (validateShareLink (postgres B now) truthy sid w) = Inl ''Share link not found''"
proof -
  have "list_all (\<lambda>row. \<not> (session w = Some (user_id row) \<and> is_active row
                       \<and> element_type row = ''share'' \<and> element_id row = sid))
             (portfolio_data_v2 (backend w))"
    using assms by (auto simp: element_type_check_def list_all_iff)
  then show ?thesis by (rule validateShareLink_not_found)
qed



text \<open>The SQL function, at the instant of expiry, reports the link invalid.\<close>

lemma validate_share_link_at_expiry:
  "validate_share_link 200 ''s1'' [form_link]
     = Inr (\<lparr>is_valid = False, valid_form_id = None, valid_permissions = None,
              requires_password = False\<rparr>, [form_link])"
  by (simp add: validate_share_link_def share_qualifies_def form_link_def)





section \<open>Properties of the autosave coordinator\<close>
































text \<open>
  C2 fails: an edit arrives while the flush of the first value is in flight, and the flush
  returns before the new timer is due. The returning callback deletes the buffered second
  value; when the new timer fires it finds nothing to save. In the end only the first
  value has been passed to \<^verbatim>\<open>saveElement\<close>, no timer and no flush is left, and the
  buffer is empty.
\<close>

theorem autoSave_edit_during_flush:
  "saveCalls (run idle [Edit ''text'' ''a1'' ''v1'' None, Elapse 2000,
                        Edit ''text'' ''a1'' ''v2'' None, Settle 0, Elapse 2000])
     = [(''text'', ''a1'', ''v1'',
         \<lparr>opt_autoSave = Some True, opt_validateData = None, opt_createBackup = None,
          opt_showNotifications = Some False\<rparr>)]
   \<and> timers (run idle [Edit ''text'' ''a1'' ''v1'' None, Elapse 2000,
                        Edit ''text'' ''a1'' ''v2'' None, Settle 0, Elapse 2000]) = []
   \<and> awaiting (run idle [Edit ''text'' ''a1'' ''v1'' None, Elapse 2000,
                        Edit ''text'' ''a1'' ''v2'' None, Settle 0, Elapse 2000]) = []
   \<and> pendingChanges (run idle [Edit ''text'' ''a1'' ''v1'' None, Elapse 2000,
                        Edit ''text'' ''a1'' ''v2'' None, Settle 0, Elapse 2000]) ''text_a1'' = None"
  by (simp add: run_def idle_def autoSave_def key_of_def setTimeout_def clearTimeout_def
        timer_delay_def elapse_def callback_start_def callback_resume_def settle_def
        or_default_def Let_def)

text \<open>
  When the first flush returns only after the second timer has fired, both values are
  flushed.
\<close>

lemma autoSave_edit_during_slow_flush:
  "map (\<lambda>c. fst (snd (snd c)))
     (saveCalls (run idle [Edit ''text'' ''a1'' ''v1'' None, Elapse 2000,
                        Edit ''text'' ''a1'' ''v2'' None, Elapse 2000, Settle 0, Settle 0]))
     = [''v1'', ''v2'']"
  by (simp add: run_def idle_def autoSave_def key_of_def setTimeout_def clearTimeout_def
        timer_delay_def elapse_def callback_start_def callback_resume_def settle_def
        or_default_def Let_def)

text \<open>
  After such a lost edit its timer is still running while both maps are empty. A burst
  that starts then is flushed by that timer and again by its own.
\<close>

lemma autoSave_stale_timer:
  "map (\<lambda>c. fst (snd (snd c)))
     (saveCalls (run idle [Edit ''text'' ''a1'' ''v1'' None, Elapse 2000,
                        Edit ''text'' ''a1'' ''v2'' None, Settle 0,
                        Edit ''text'' ''a1'' ''v3'' None, Elapse 2000, Elapse 2000]))
     = [''v1'', ''v3'', ''v3'']"
  by (simp add: run_def idle_def autoSave_def key_of_def setTimeout_def clearTimeout_def
        timer_delay_def elapse_def callback_start_def callback_resume_def settle_def
        or_default_def Let_def)

end
